theory Spec2Isabelle
  imports Complex_Main
begin

section \<open>Data model\<close>

text \<open>
  The presenter of gkraken (\<^verbatim>\<open>src/gkraken/presenter.py\<close>) works on the objects of
  \<^verbatim>\<open>gkraken.model\<close>. They are embedded as records with the field names the presenter reads.
  Python's leading underscores are dropped (\<^verbatim>\<open>_update_status\<close> is \<open>update_status\<close>),
  and \<^verbatim>\<open>SpeedProfile.id\<close> is \<open>profile_id\<close>, since \<open>id\<close> is the identity of HOL.
\<close>

text \<open>
  Modelled from the spec: the enumeration \<^verbatim>\<open>gkraken.model.ChannelType\<close> is imported by the
  presenter and not part of the sources. The spec names its members FAN and PUMP ("a
  controllable device output (fan or pump)"); the presenter stores \<^verbatim>\<open>channel.value\<close>, a
  string, in profiles and rows.
\<close>

datatype ChannelType = FAN | PUMP

fun ChannelType_value :: "ChannelType \<Rightarrow> string" where
  "ChannelType_value FAN = ''fan''"
| "ChannelType_value PUMP = ''pump''"

definition ChannelType_members :: "ChannelType list" where
  "ChannelType_members = [FAN, PUMP]"

record SpeedStep =
  temperature :: int
  duty :: int

record SpeedProfile =
  profile_id :: int
  channel :: string
  name :: string
  steps :: "SpeedStep list"
  single_step :: bool

text \<open>
  A row of the table \<^verbatim>\<open>CurrentSpeedProfile\<close>, as the presenter sees it through the
  object-relational layer: \<^verbatim>\<open>row.channel\<close> (here \<open>current_channel\<close>, the field name
  \<open>channel\<close> being taken by the profile) and \<^verbatim>\<open>row.profile\<close>, the profile it refers to.
\<close>

record CurrentSpeedProfile =
  current_channel :: string
  profile :: SpeedProfile

text \<open>
  Modelled from the spec: \<^verbatim>\<open>gkraken.model.Status\<close> is not part of the sources; the spec
  gives it as a snapshot with a float \<^verbatim>\<open>liquid_temperature\<close>, optional integers
  \<^verbatim>\<open>fan_speed\<close> and \<^verbatim>\<open>pump_speed\<close>, and further fields. The further fields are
  the extension slot of the record: the presenter is embedded over every
  \<open>'m Status_scheme\<close>.

  A Python float is a finite value, an infinity or NaN. Python compares a float with an
  int by their exact values, so a finite float is embedded as the real number it denotes.
\<close>

datatype pyfloat = Finite real | PosInf | NegInf | NaN

fun float_ge_int :: "pyfloat \<Rightarrow> int \<Rightarrow> bool" where
  "float_ge_int (Finite x) n = (real_of_int n \<le> x)"
| "float_ge_int PosInf n = True"
| "float_ge_int NegInf n = False"
| "float_ge_int NaN n = False"

record Status =
  liquid_temperature :: pyfloat
  fan_speed :: "int option"
  pump_speed :: "int option"

section \<open>The presenter's world\<close>

text \<open>An exception is carried by its rendering \<^verbatim>\<open>str(ex)\<close>.\<close>

datatype Exception = Exception (str: string)

text \<open>
  What an observable sends to its subscriber: items, then at most one terminal
  notification. The cold, finite observables of the presenter are lists of these.
\<close>

datatype 'a notification = OnNext 'a | OnError Exception | OnCompleted

datatype setting = BoolSetting bool | IntSetting int

text \<open>The calls the presenter makes on \<^verbatim>\<open>self.view\<close> (\<^verbatim>\<open>ViewInterface\<close>).\<close>

datatype 'm view_call =
    refresh_status "'m Status_scheme option"
  | refresh_profile_combobox ChannelType "(int \<times> string) list" "nat option"
  | set_statusbar_text string
  | refresh_settings "(string \<times> setting) list"

text \<open>
  The subscriptions added to \<^verbatim>\<open>self._composite_disposable\<close>: the device call of
  \<^verbatim>\<open>_set_speed_profile\<close> with the arguments given to the interactor, the status
  poller with its interval, and the version check.
\<close>

datatype subscription =
    Set_speed_profile string "(int \<times> int) list"
  | Refresh int
  | Check_new_version

text \<open>
  Everything the presenter does to the outside, in the order it happens:
  \<^verbatim>\<open>LOG.exception\<close> with the formatted message, a call on the view, a subscription.
\<close>

datatype 'm event =
    Log string
  | View "'m view_call"
  | Subscribed subscription

text \<open>
  The state the presenter runs in: its own fields (\<^verbatim>\<open>_profile_selected\<close>,
  \<^verbatim>\<open>_should_update_fan_speed\<close>), the two tables it reads and writes, the settings
  interactor (\<^verbatim>\<open>get_bool\<close>, \<^verbatim>\<open>get_int\<close>), whether the poller's subscription is
  still live, and the trace of events.
\<close>

record 'm Presenter =
  profile_selected :: "string \<rightharpoonup> SpeedProfile"
  should_update_fan_speed :: bool
  CurrentSpeedProfile_table :: "CurrentSpeedProfile list"
  SpeedProfile_table :: "SpeedProfile list"
  settings_get_bool :: "string \<Rightarrow> bool"
  settings_get_int :: "string \<Rightarrow> int"
  refresh_alive :: bool
  trace :: "'m event list"

definition emit :: "'m event \<Rightarrow> 'm Presenter \<Rightarrow> 'm Presenter" where
  "emit e w = w\<lparr>trace := trace w @ [e]\<rparr>"

text \<open>
  \<^verbatim>\<open>Presenter.__init__\<close>: no profile selected, fan-speed tracking off. The tables and
  the settings are the collaborators' and are given.
\<close>

definition init :: "CurrentSpeedProfile list \<Rightarrow> SpeedProfile list \<Rightarrow> (string \<Rightarrow> bool) \<Rightarrow>
    (string \<Rightarrow> int) \<Rightarrow> 'm Presenter" where
  "init cur profs gb gi =
     \<lparr>profile_selected = Map.empty, should_update_fan_speed = False,
      CurrentSpeedProfile_table = cur, SpeedProfile_table = profs,
      settings_get_bool = gb, settings_get_int = gi,
      refresh_alive = False, trace = []\<rparr>"

section \<open>The table of current profiles\<close>

text \<open>
  \<^verbatim>\<open>CurrentSpeedProfile.get_or_none(channel=c)\<close>: the first row of that channel, if any.
\<close>

fun get_or_none :: "CurrentSpeedProfile list \<Rightarrow> string \<Rightarrow> CurrentSpeedProfile option" where
  "get_or_none [] c = None"
| "get_or_none (r # rs) c = (if current_channel r = c then Some r else get_or_none rs c)"

text \<open>\<^verbatim>\<open>CurrentSpeedProfile.create(channel=c, profile=p)\<close>: one more row.\<close>

definition create :: "string \<Rightarrow> SpeedProfile \<Rightarrow> CurrentSpeedProfile list \<Rightarrow> CurrentSpeedProfile list" where
  "create c p rows = rows @ [\<lparr>current_channel = c, profile = p\<rparr>]"

text \<open>
  \<^verbatim>\<open>current.profile = p; current.save()\<close> on the row \<^verbatim>\<open>get_or_none(channel=c)\<close>
  returned: that row, the first of the channel, is written back with the new profile.
\<close>

fun save :: "string \<Rightarrow> SpeedProfile \<Rightarrow> CurrentSpeedProfile list \<Rightarrow> CurrentSpeedProfile list" where
  "save c p [] = []"
| "save c p (r # rs) = (if current_channel r = c then r\<lparr>profile := p\<rparr> # rs else r # save c p rs)"

section \<open>Status updates\<close>

text \<open>
  The comprehension of \<^verbatim>\<open>_update_status\<close>:
  \<^verbatim>\<open>[i.duty for i in last_applied.profile.steps if status.liquid_temperature >= i.temperature]\<close>
\<close>

definition duties_of :: "SpeedStep list \<Rightarrow> pyfloat \<Rightarrow> int list" where
  "duties_of ss t = map duty (filter (\<lambda>i. float_ge_int t (temperature i)) ss)"

text \<open>
  \<^verbatim>\<open>Presenter._update_status\<close>. \<^verbatim>\<open>duties[-1]\<close> is read only when the list is not empty.
\<close>

definition update_status :: "'m Status_scheme option \<Rightarrow> 'm Presenter \<Rightarrow> 'm Presenter" where
  "update_status status_opt w =
     (case status_opt of
        None \<Rightarrow> w
      | Some status \<Rightarrow>
          let status' =
            (if should_update_fan_speed w then
               (case get_or_none (CurrentSpeedProfile_table w) (ChannelType_value FAN) of
                  None \<Rightarrow> status
                | Some last_applied \<Rightarrow>
                    let duties = duties_of (steps (profile last_applied)) (liquid_temperature status)
                    in if duties \<noteq> [] then status\<lparr>fan_speed := Some (last duties)\<rparr> else status)
             else status)
          in emit (View (refresh_status (Some status'))) w)"

section \<open>Observables\<close>

text \<open>
  \<^verbatim>\<open>rx.defer(lambda _: rx.just(f()))\<close>, the observable of
  \<^verbatim>\<open>GetStatusInteractor.execute\<close>: on subscription the call is made; its value is sent
  and the observable completes, or the exception it raises is sent as the error. The
  outcome of the call is the argument.
\<close>

definition defer_just :: "Exception + 'a \<Rightarrow> 'a notification list" where
  "defer_just r = (case r of Inl ex \<Rightarrow> [OnError ex] | Inr x \<Rightarrow> [OnNext x, OnCompleted])"

text \<open>
  \<^verbatim>\<open>subscribe(on_next=..., on_error=...)\<close>: each item goes to \<open>on_next\<close>, an error to
  \<open>on_error\<close>, and nothing is delivered after a terminal notification.
\<close>

fun subscribe :: "('a \<Rightarrow> 'w \<Rightarrow> 'w) \<Rightarrow> (Exception \<Rightarrow> 'w \<Rightarrow> 'w) \<Rightarrow> 'a notification list \<Rightarrow> 'w \<Rightarrow> 'w" where
  "subscribe on_next on_error [] w = w"
| "subscribe on_next on_error (OnNext x # ns) w = subscribe on_next on_error ns (on_next x w)"
| "subscribe on_next on_error (OnError e # ns) w = on_error e w"
| "subscribe on_next on_error (OnCompleted # ns) w = w"

text \<open>
  \<^verbatim>\<open>source.catch_exception(handler)\<close>: the source's items pass; at an error the
  handler runs and the observable it returns takes over.
\<close>

fun catch_exception :: "'a notification list \<Rightarrow> (Exception \<Rightarrow> 'w \<Rightarrow> 'a notification list \<times> 'w) \<Rightarrow>
    'w \<Rightarrow> 'a notification list \<times> 'w" where
  "catch_exception [] handler w = ([], w)"
| "catch_exception (OnNext x # ns) handler w =
     (case catch_exception ns handler w of (ms, w') \<Rightarrow> (OnNext x # ms, w'))"
| "catch_exception (OnError e # ns) handler w = handler e w"
| "catch_exception (OnCompleted # ns) handler w = ([OnCompleted], w)"

section \<open>Applying a profile\<close>

text \<open>\<^verbatim>\<open>Presenter._get_profile_data\<close>\<close>

definition get_profile_data :: "SpeedProfile \<Rightarrow> (int \<times> int) list" where
  "get_profile_data p = map (\<lambda>s. (temperature s, duty s)) (steps p)"

text \<open>
  \<^verbatim>\<open>str.capitalize\<close> on ASCII text: the first character in upper case, the others in
  lower case.
\<close>

definition upper_char :: "char \<Rightarrow> char" where
  "upper_char c = (let n = (of_char c :: nat) in if 97 \<le> n \<and> n \<le> 122 then char_of (n - 32) else c)"

definition lower_char :: "char \<Rightarrow> char" where
  "lower_char c = (let n = (of_char c :: nat) in if 65 \<le> n \<and> n \<le> 90 then char_of (n + 32) else c)"

fun capitalize :: "string \<Rightarrow> string" where
  "capitalize [] = []"
| "capitalize (c # cs) = upper_char c # map lower_char cs"

text \<open>\<^verbatim>\<open>Presenter._update_current_speed_profile\<close>\<close>

definition update_current_speed_profile :: "SpeedProfile \<Rightarrow> 'm Presenter \<Rightarrow> 'm Presenter" where
  "update_current_speed_profile p w =
     (let rows = CurrentSpeedProfile_table w;
          rows' = (case get_or_none rows (channel p) of
                     None \<Rightarrow> create (channel p) p rows
                   | Some current \<Rightarrow> save (channel p) p rows)
      in emit (View (set_statusbar_text (capitalize (channel p) @ '' cooling profile applied'')))
           (w\<lparr>CurrentSpeedProfile_table := rows'\<rparr>))"

text \<open>
  \<^verbatim>\<open>Presenter._set_speed_profile\<close>, in its two halves. The call itself asks the
  interactor for the observable of the device call and subscribes to it: the subscription
  is recorded with the interactor's arguments. The outcome arrives later, on the GUI
  thread, at one of the two handlers given to \<^verbatim>\<open>subscribe\<close>.
\<close>

definition set_speed_profile :: "SpeedProfile \<Rightarrow> 'm Presenter \<Rightarrow> 'm Presenter" where
  "set_speed_profile p w = emit (Subscribed (Set_speed_profile (channel p) (get_profile_data p))) w"

definition set_speed_profile_on_next :: "SpeedProfile \<Rightarrow> unit \<Rightarrow> 'm Presenter \<Rightarrow> 'm Presenter" where
  "set_speed_profile_on_next p u w = update_current_speed_profile p w"

definition set_speed_profile_on_error :: "SpeedProfile \<Rightarrow> Exception \<Rightarrow> 'm Presenter \<Rightarrow> 'm Presenter" where
  "set_speed_profile_on_error p e w =
     emit (View (set_statusbar_text (''Error applying '' @ channel p @ '' speed profile!'')))
       (emit (Log (''Set cooling error: '' @ str e)) w)"

text \<open>
  Modelled from the spec: \<^verbatim>\<open>SetSpeedProfileInteractor\<close> is not part of the sources. The
  spec gives the device call as \<^verbatim>\<open>sendProfile(channel, steps)\<close>, which returns or raises
  a device error; its observable is taken to be built as \<^verbatim>\<open>GetStatusInteractor\<close> builds
  its own. The argument is the outcome of the device call.
\<close>

definition set_speed_profile_result :: "SpeedProfile \<Rightarrow> Exception + unit \<Rightarrow> 'm Presenter \<Rightarrow> 'm Presenter" where
  "set_speed_profile_result p sent w =
     subscribe (set_speed_profile_on_next p) (set_speed_profile_on_error p) (defer_just sent) w"

section \<open>The status poller\<close>

text \<open>\<^verbatim>\<open>Presenter._log_exception_return_empty_observable\<close>\<close>

definition log_exception_return_empty_observable ::
    "Exception \<Rightarrow> 'm Presenter \<Rightarrow> 'm Status_scheme option notification list \<times> 'm Presenter" where
  "log_exception_return_empty_observable ex w =
     ([OnNext None, OnCompleted],
      emit (View (set_statusbar_text (str ex))) (emit (Log (''Err = '' @ str ex)) w))"

text \<open>
  \<^verbatim>\<open>Presenter._get_status\<close>. The argument is the outcome of
  \<^verbatim>\<open>KrakenRepository.get_status()\<close> on this tick: an exception or an optional status.
\<close>

definition get_status :: "Exception + 'm Status_scheme option \<Rightarrow> 'm Presenter \<Rightarrow>
    'm Status_scheme option notification list \<times> 'm Presenter" where
  "get_status fetched w = catch_exception (defer_just fetched) log_exception_return_empty_observable w"

text \<open>
  \<^verbatim>\<open>Presenter._start_refresh\<close>: the interval is read from the settings, in seconds,
  and the poller is subscribed. Its ticks come later, one at a time, as \<open>refresh_tick\<close>.
\<close>

definition start_refresh :: "'m Presenter \<Rightarrow> 'm Presenter" where
  "start_refresh w =
     (let refresh_interval_ms = settings_get_int w ''settings_refresh_interval'' * 1000
      in (emit (Subscribed (Refresh refresh_interval_ms)) w)\<lparr>refresh_alive := True\<rparr>)"

text \<open>The \<^verbatim>\<open>on_error\<close> of the poller's subscriber: the error is logged, and the
  subscription has ended.\<close>

definition refresh_on_error :: "Exception \<Rightarrow> 'm Presenter \<Rightarrow> 'm Presenter" where
  "refresh_on_error e w = (emit (Log (''Refresh error: '' @ str e)) w)\<lparr>refresh_alive := False\<rparr>"

text \<open>
  One tick of \<^verbatim>\<open>interval(...).start_with(0).flat_map(lambda _: self._get_status())\<close>
  delivered to \<^verbatim>\<open>subscribe(on_next=self._update_status, on_error=...)\<close>: the inner
  observable's items go to \<open>update_status\<close>, its completion ends the tick only, an error
  of its own would end the whole subscription. A subscription that has ended takes no tick.
\<close>

definition refresh_tick :: "Exception + 'm Status_scheme option \<Rightarrow> 'm Presenter \<Rightarrow> 'm Presenter" where
  "refresh_tick fetched w =
     (if refresh_alive w then
        (case get_status fetched w of (ns, w') \<Rightarrow> subscribe update_status refresh_on_error ns w')
      else w)"

fun refresh_ticks :: "(Exception + 'm Status_scheme option) list \<Rightarrow> 'm Presenter \<Rightarrow> 'm Presenter" where
  "refresh_ticks [] w = w"
| "refresh_ticks (fetched # rest) w = refresh_ticks rest (refresh_tick fetched w)"

section \<open>Start-up\<close>

datatype error = StopIteration | IndexError | KeyError

text \<open>\<^verbatim>\<open>Presenter._get_profile_list\<close>\<close>

definition get_profile_list :: "ChannelType \<Rightarrow> 'm Presenter \<Rightarrow> (int \<times> string) list" where
  "get_profile_list ch w =
     map (\<lambda>p. (profile_id p, name p))
       (filter (\<lambda>p. channel p = ChannelType_value ch) (SpeedProfile_table w))"

text \<open>
  \<^verbatim>\<open>next(i for i, item in enumerate(data) if item[0] == x)\<close>, counting from \<open>i\<close>;
  \<open>None\<close> is Python's \<^verbatim>\<open>StopIteration\<close>.
\<close>

fun next_index :: "(int \<times> string) list \<Rightarrow> int \<Rightarrow> nat \<Rightarrow> nat option" where
  "next_index [] x i = None"
| "next_index (item # data) x i = (if fst item = x then Some i else next_index data x (Suc i))"

definition ADD_NEW_PROFILE_INDEX :: int where
  "ADD_NEW_PROFILE_INDEX = - 10"

definition add_new_profile_item :: "int \<times> string" where
  "add_new_profile_item =
     (ADD_NEW_PROFILE_INDEX,
      ''<span style='' @ [CHR 0x27] @ ''italic'' @ [CHR 0x27] @ '' alpha='' @ [CHR 0x27] @ ''50%'' @ [CHR 0x27]
        @ ''>Add new profile...</span>'')"

text \<open>
  The body of the loop of \<^verbatim>\<open>Presenter._init_speed_profiles\<close> for one channel. An
  exception leaves the state as it was when raised.
\<close>

definition init_speed_profiles_body :: "ChannelType \<Rightarrow> 'm Presenter \<Rightarrow> error option \<times> 'm Presenter" where
  "init_speed_profiles_body ch w =
     (let data = get_profile_list ch w in
      if settings_get_bool w ''settings_load_last_profile'' then
        (let w1 = w\<lparr>should_update_fan_speed := True\<rparr> in
         case get_or_none (CurrentSpeedProfile_table w1) (ChannelType_value ch) of
           None \<Rightarrow>
             (None, emit (View (refresh_profile_combobox ch (data @ [add_new_profile_item]) None)) w1)
         | Some current \<Rightarrow>
             (case next_index data (profile_id (profile current)) 0 of
                None \<Rightarrow> (Some StopIteration, w1)
              | Some active \<Rightarrow>
                  (None, emit (View (refresh_profile_combobox ch (data @ [add_new_profile_item]) (Some active)))
                           (set_speed_profile (profile current) w1))))
      else (None, emit (View (refresh_profile_combobox ch (data @ [add_new_profile_item]) None)) w))"

fun init_speed_profiles_loop :: "ChannelType list \<Rightarrow> 'm Presenter \<Rightarrow> error option \<times> 'm Presenter" where
  "init_speed_profiles_loop [] w = (None, w)"
| "init_speed_profiles_loop (ch # chs) w =
     (case init_speed_profiles_body ch w of
        (Some e, w') \<Rightarrow> (Some e, w')
      | (None, w') \<Rightarrow> init_speed_profiles_loop chs w')"

definition init_speed_profiles :: "'m Presenter \<Rightarrow> error option \<times> 'm Presenter" where
  "init_speed_profiles w = init_speed_profiles_loop ChannelType_members w"

text \<open>
  \<^verbatim>\<open>Presenter._init_settings\<close>. \<^verbatim>\<open>gkraken.conf.SETTINGS_DEFAULTS\<close> is not part of
  the sources and is a parameter: its items in order, each default a bool, an int or
  something else. \<^verbatim>\<open>isinstance(v, bool)\<close> is asked first, as a Python bool is an int.
\<close>

datatype default_value = DefaultBool bool | DefaultInt int | DefaultOther

fun init_settings_item :: "'m Presenter \<Rightarrow> string \<times> default_value \<Rightarrow> (string \<times> setting) option" where
  "init_settings_item w (key, DefaultBool b) = Some (key, BoolSetting (settings_get_bool w key))"
| "init_settings_item w (key, DefaultInt i) = Some (key, IntSetting (settings_get_int w key))"
| "init_settings_item w (key, DefaultOther) = None"

definition init_settings :: "(string \<times> default_value) list \<Rightarrow> 'm Presenter \<Rightarrow> 'm Presenter" where
  "init_settings SETTINGS_DEFAULTS w =
     emit (View (refresh_settings (List.map_filter (init_settings_item w) SETTINGS_DEFAULTS))) w"

text \<open>\<^verbatim>\<open>Presenter._check_new_version\<close>: the subscription of the version check.\<close>

definition check_new_version :: "'m Presenter \<Rightarrow> 'm Presenter" where
  "check_new_version w = emit (Subscribed Check_new_version) w"

text \<open>\<^verbatim>\<open>Presenter.on_start\<close>\<close>

definition on_start :: "(string \<times> default_value) list \<Rightarrow> 'm Presenter \<Rightarrow> error option \<times> 'm Presenter" where
  "on_start SETTINGS_DEFAULTS w =
     (case init_speed_profiles w of
        (Some e, w') \<Rightarrow> (Some e, w')
      | (None, w') \<Rightarrow> (None, check_new_version (start_refresh (init_settings SETTINGS_DEFAULTS w'))))"

section \<open>Chart data\<close>

text \<open>
  A Python dict keeps its keys in insertion order; assigning to a key that is present
  replaces the value where it stands.
\<close>

fun dict_set :: "int \<Rightarrow> int \<Rightarrow> (int \<times> int) list \<Rightarrow> (int \<times> int) list" where
  "dict_set k v [] = [(k, v)]"
| "dict_set k v (kv # d) = (if fst kv = k then (k, v) # d else kv # dict_set k v d)"

fun dict_get :: "(int \<times> int) list \<Rightarrow> int \<Rightarrow> int option" where
  "dict_get [] k = None"
| "dict_get (kv # d) k = (if fst kv = k then Some (snd kv) else dict_get d k)"

text \<open>\<^verbatim>\<open>min(data.keys())\<close> of a dict that is not empty.\<close>

fun min_key :: "int \<Rightarrow> (int \<times> int) list \<Rightarrow> int" where
  "min_key m [] = m"
| "min_key m (kv # d) = min_key (min m (fst kv)) d"

text \<open>
  \<^verbatim>\<open>get_speed_profile_data\<close> of \<^verbatim>\<open>src/gkraken/util/view.py\<close>. The constants
  \<^verbatim>\<open>MIN_TEMP\<close>, \<^verbatim>\<open>MAX_TEMP\<close> and \<^verbatim>\<open>MAX_DUTY\<close> of \<^verbatim>\<open>gkraken.conf\<close> are not part
  of the sources and are parameters. \<^verbatim>\<open>profile.steps[0]\<close> raises on an empty sequence
  and \<^verbatim>\<open>data[k]\<close> on a missing key.
\<close>

definition get_speed_profile_data :: "int \<Rightarrow> int \<Rightarrow> int \<Rightarrow> SpeedProfile \<Rightarrow> error + (int \<times> int) list" where
  "get_speed_profile_data MIN_TEMP MAX_TEMP MAX_DUTY p =
     (let data = foldl (\<lambda>d s. dict_set (temperature s) (duty s) d) [] (steps p) in
      case data of
        [] \<Rightarrow> Inr data
      | kv # rest \<Rightarrow>
          (if single_step p then
             (case steps p of
                [] \<Rightarrow> Inl IndexError
              | s0 # ss \<Rightarrow> Inr (dict_set MAX_TEMP (duty s0) data))
           else
             (if dict_get data MIN_TEMP = None then
                (case dict_get data (min_key (fst kv) rest) of
                   None \<Rightarrow> Inl KeyError
                 | Some v \<Rightarrow> Inr (dict_set MAX_TEMP MAX_DUTY (dict_set MIN_TEMP v data)))
              else Inr (dict_set MAX_TEMP MAX_DUTY data))))"

section \<open>Example data\<close>

text \<open>
  The profile of the spec's example, a profile with two steps at one temperature, a
  fixed-speed profile, a presenter that tracks the profile applied to the fan, and a
  status as the device reports it.
\<close>

definition curve_profile :: SpeedProfile where
  "curve_profile =
     \<lparr>profile_id = 1, channel = ''fan'', name = ''Curve'',
      steps = [\<lparr>temperature = 20, duty = 30\<rparr>, \<lparr>temperature = 40, duty = 60\<rparr>,
               \<lparr>temperature = 60, duty = 100\<rparr>],
      single_step = False\<rparr>"

definition tied_profile :: SpeedProfile where
  "tied_profile =
     \<lparr>profile_id = 2, channel = ''fan'', name = ''Tied'',
      steps = [\<lparr>temperature = 20, duty = 30\<rparr>, \<lparr>temperature = 40, duty = 60\<rparr>,
               \<lparr>temperature = 40, duty = 70\<rparr>, \<lparr>temperature = 60, duty = 100\<rparr>],
      single_step = False\<rparr>"

definition fixed_profile :: SpeedProfile where
  "fixed_profile =
     \<lparr>profile_id = 3, channel = ''fan'', name = ''Fixed'',
      steps = [\<lparr>temperature = 20, duty = 75\<rparr>], single_step = True\<rparr>"

definition tracking :: "SpeedProfile \<Rightarrow> unit Presenter" where
  "tracking p =
     (init [\<lparr>current_channel = channel p, profile = p\<rparr>] [p] (\<lambda>key. True) (\<lambda>key. 3))
       \<lparr>should_update_fan_speed := True\<rparr>"

definition reading :: "real \<Rightarrow> Status" where
  "reading t = \<lparr>liquid_temperature = Finite t, fan_speed = Some 1200, pump_speed = Some 2400\<rparr>"

section \<open>Theorems\<close>

subsection \<open>Status updates\<close>

lemma duties_of_empty_iff: "duties_of ss t = [] \<longleftrightarrow> (\<forall>s\<in>set ss. \<not> float_ge_int t (temperature s))"
  by (simp add: duties_of_def filter_empty_conv)

lemma last_duties_of:
  "duties_of ss t \<noteq> [] \<Longrightarrow> last (duties_of ss t) = duty (last (filter (\<lambda>i. float_ge_int t (temperature i)) ss))"
  by (simp add: duties_of_def last_map)

lemma sorted_last_max:
  "sorted (map f xs) \<Longrightarrow> x \<in> set xs \<Longrightarrow> f x \<le> f (last xs)"
proof (induction xs)
  case Nil
  then show ?case by simp
next
  case (Cons a xs)
  then show ?case by (cases "xs = []") auto
qed

lemma sorted_map_filter: "sorted (map f xs) \<Longrightarrow> sorted (map f (filter P xs))"
  by (induction xs) auto

lemma last_filter_greatest:
  assumes "sorted (map temperature ss)" and "s' \<in> set ss" and "float_ge_int t (temperature s')"
  shows "temperature s' \<le> temperature (last (filter (\<lambda>i. float_ge_int t (temperature i)) ss))"
proof -
  let ?q = "filter (\<lambda>i. float_ge_int t (temperature i)) ss"
  have "sorted (map temperature ?q)" using assms(1) by (rule sorted_map_filter)
  moreover have "s' \<in> set ?q" using assms(2,3) by simp
  ultimately show ?thesis by (rule sorted_last_max)
qed

lemma update_status_Some:
  "update_status (Some status) w =
     emit (View (refresh_status (Some
       (if should_update_fan_speed w then
          (case get_or_none (CurrentSpeedProfile_table w) (ChannelType_value FAN) of
             None \<Rightarrow> status
           | Some last_applied \<Rightarrow>
               if duties_of (steps (profile last_applied)) (liquid_temperature status) \<noteq> []
               then status\<lparr>fan_speed := Some (last (duties_of (steps (profile last_applied)) (liquid_temperature status)))\<rparr>
               else status)
        else status)))) w"
  by (simp add: update_status_def Let_def split: option.split)

lemma tracking_flag: "should_update_fan_speed (tracking p)"
  by (simp add: tracking_def)

lemma tracking_row:
  "get_or_none (CurrentSpeedProfile_table (tracking p)) (channel p) = Some \<lparr>current_channel = channel p, profile = p\<rparr>"
  by (simp add: tracking_def init_def)

lemma tracking_trace: "trace (tracking p) = []"
  by (simp add: tracking_def init_def)

lemmas example_defs = curve_profile_def tied_profile_def fixed_profile_def tracking_def reading_def init_def

text \<open>
  C10. A tick that delivers \<^verbatim>\<open>None\<close> reaches \<open>update_status\<close> and does nothing there:
  no call on the view, and the presenter's state, trace included, is what it was. The
  observable that \<^verbatim>\<open>_log_exception_return_empty_observable\<close> returns after a failed
  fetch carries exactly that \<^verbatim>\<open>None\<close>, so delivering it to the poller's subscriber
  changes nothing either.
\<close>

theorem update_status_None:
  "update_status None w = w \<and>
   subscribe update_status refresh_on_error (fst (log_exception_return_empty_observable ex v)) w = w"
  by (simp add: update_status_def log_exception_return_empty_observable_def)

text \<open>
  C6. While \<^verbatim>\<open>_should_update_fan_speed\<close> is off (as \<^verbatim>\<open>__init__\<close> leaves it), a status
  goes to the view exactly as it came: \<open>fan_speed\<close> and every other field, those of the
  extension slot too, are untouched, and the presenter changes in nothing but the trace.
\<close>

theorem update_status_passthrough:
  "\<not> should_update_fan_speed w \<Longrightarrow>
     update_status (Some status) w = w\<lparr>trace := trace w @ [View (refresh_status (Some status))]\<rparr>"
  by (simp add: update_status_Some emit_def)

theorem update_status_passthrough_witness:
  "\<not> should_update_fan_speed (init [\<lparr>current_channel = ''fan'', profile = curve_profile\<rparr>] [curve_profile]
        (\<lambda>key. False) (\<lambda>key. 3) :: unit Presenter) \<and>
   trace (update_status (Some (reading 45))
     (init [\<lparr>current_channel = ''fan'', profile = curve_profile\<rparr>] [curve_profile] (\<lambda>key. False) (\<lambda>key. 3)))
   = [View (refresh_status (Some \<lparr>liquid_temperature = Finite 45, fan_speed = Some 1200, pump_speed = Some 2400\<rparr>))]"
  using update_status_passthrough [of "init [\<lparr>current_channel = ''fan'', profile = curve_profile\<rparr>] [curve_profile]
        (\<lambda>key. False) (\<lambda>key. 3)" "reading 45"]
  by (simp add: init_def reading_def)

text \<open>
  C1. With fan-speed tracking on and a profile applied to the fan whose steps are sorted
  by temperature: if some step's temperature is at most the measured one, the status is
  published with \<open>fan_speed\<close> set to the duty of a step that qualifies and whose temperature
  no qualifying step exceeds; if no step qualifies, the status is published as the device
  reported it. ``Temperature of the step at most the measured one'' is the source's
  \<^verbatim>\<open>status.liquid_temperature >= i.temperature\<close>.
\<close>

theorem update_status_resolves:
  assumes "should_update_fan_speed w"
    and "get_or_none (CurrentSpeedProfile_table w) (ChannelType_value FAN) = Some last_applied"
    and "sorted (map temperature (steps (profile last_applied)))"
  shows "((\<exists>s\<in>set (steps (profile last_applied)). float_ge_int (liquid_temperature status) (temperature s)) \<longrightarrow>
          (\<exists>s\<in>set (steps (profile last_applied)).
             float_ge_int (liquid_temperature status) (temperature s) \<and>
             (\<forall>s'\<in>set (steps (profile last_applied)).
                float_ge_int (liquid_temperature status) (temperature s') \<longrightarrow> temperature s' \<le> temperature s) \<and>
             update_status (Some status) w =
               w\<lparr>trace := trace w @ [View (refresh_status (Some (status\<lparr>fan_speed := Some (duty s)\<rparr>)))]\<rparr>)) \<and>
         ((\<forall>s\<in>set (steps (profile last_applied)). \<not> float_ge_int (liquid_temperature status) (temperature s)) \<longrightarrow>
          update_status (Some status) w = w\<lparr>trace := trace w @ [View (refresh_status (Some status))]\<rparr>)"
proof (intro conjI impI)
  let ?ss = "steps (profile last_applied)"
  let ?t = "liquid_temperature status"
  let ?q = "filter (\<lambda>i. float_ge_int ?t (temperature i)) ?ss"
  assume ex: "\<exists>s\<in>set ?ss. float_ge_int ?t (temperature s)"
  then have ne: "duties_of ?ss ?t \<noteq> []" by (simp add: duties_of_empty_iff)
  then have qne: "?q \<noteq> []" by (simp add: duties_of_def)
  then have "last ?q \<in> set ?q" by (rule last_in_set)
  then have mem: "last ?q \<in> set ?ss" and ge: "float_ge_int ?t (temperature (last ?q))" by simp_all
  have greatest: "\<forall>s'\<in>set ?ss. float_ge_int ?t (temperature s') \<longrightarrow> temperature s' \<le> temperature (last ?q)"
    using assms(3) by (simp add: last_filter_greatest)
  have "update_status (Some status) w =
          w\<lparr>trace := trace w @ [View (refresh_status (Some (status\<lparr>fan_speed := Some (duty (last ?q))\<rparr>)))]\<rparr>"
    using assms(1,2) ne by (simp add: update_status_Some emit_def last_duties_of)
  with mem ge greatest show "\<exists>s\<in>set ?ss. float_ge_int ?t (temperature s) \<and>
      (\<forall>s'\<in>set ?ss. float_ge_int ?t (temperature s') \<longrightarrow> temperature s' \<le> temperature s) \<and>
      update_status (Some status) w =
        w\<lparr>trace := trace w @ [View (refresh_status (Some (status\<lparr>fan_speed := Some (duty s)\<rparr>)))]\<rparr>"
    by blast
next
  assume "\<forall>s\<in>set (steps (profile last_applied)). \<not> float_ge_int (liquid_temperature status) (temperature s)"
  then have "duties_of (steps (profile last_applied)) (liquid_temperature status) = []"
    by (simp add: duties_of_empty_iff)
  then show "update_status (Some status) w = w\<lparr>trace := trace w @ [View (refresh_status (Some status))]\<rparr>"
    using assms(1,2) by (simp add: update_status_Some emit_def)
qed

theorem update_status_resolves_witness:
  "update_status (Some (reading 45)) (tracking curve_profile) =
     (tracking curve_profile)\<lparr>trace := [View (refresh_status (Some ((reading 45)\<lparr>fan_speed := Some 60\<rparr>)))]\<rparr> \<and>
   update_status (Some (reading 60)) (tracking curve_profile) =
     (tracking curve_profile)\<lparr>trace := [View (refresh_status (Some ((reading 60)\<lparr>fan_speed := Some 100\<rparr>)))]\<rparr> \<and>
   update_status (Some (reading 10)) (tracking curve_profile) =
     (tracking curve_profile)\<lparr>trace := [View (refresh_status (Some (reading 10)))]\<rparr>"
proof -
  let ?row = "\<lparr>current_channel = ''fan'', profile = curve_profile\<rparr>"
  have flag: "should_update_fan_speed (tracking curve_profile)"
    by (simp add: tracking_def)
  have row: "get_or_none (CurrentSpeedProfile_table (tracking curve_profile)) (ChannelType_value FAN) = Some ?row"
    by (simp add: tracking_def init_def curve_profile_def)
  have srt: "sorted (map temperature (steps (profile ?row)))"
    by (simp add: curve_profile_def)
  show ?thesis
    using update_status_resolves [OF flag row srt, of "reading 45"]
      update_status_resolves [OF flag row srt, of "reading 60"]
      update_status_resolves [OF flag row srt, of "reading 10"]
    by (auto simp: tracking_trace curve_profile_def reading_def)
qed

lemma last_filter_nth:
  assumes "j < length xs" and "P (xs ! j)" and "\<forall>k. j < k \<and> k < length xs \<longrightarrow> \<not> P (xs ! k)"
  shows "last (filter P xs) = xs ! j"
proof -
  have split: "xs = take j xs @ xs ! j # drop (Suc j) xs"
    using assms(1) by (rule id_take_nth_drop)
  have "\<forall>x\<in>set (drop (Suc j) xs). \<not> P x"
  proof
    fix x assume "x \<in> set (drop (Suc j) xs)"
    then obtain n where n: "n < length (drop (Suc j) xs)" "x = drop (Suc j) xs ! n"
      by (auto simp: in_set_conv_nth)
    then have "x = xs ! (Suc j + n)" and "Suc j + n < length xs" by auto
    with assms(3) show "\<not> P x" by simp
  qed
  then have "filter P (drop (Suc j) xs) = []" by (simp add: filter_empty_conv)
  then have "filter P xs = filter P (take j xs) @ [xs ! j]"
    using assms(2) by (subst split) simp
  then show ?thesis by simp
qed

text \<open>
  C7. In a profile sorted by temperature, let the steps at positions \<open>i < j\<close> have the
  same temperature, let \<open>j\<close> be the last position with that temperature, let it be at most
  the measured temperature and let no qualifying step be warmer. Then the published
  \<open>fan_speed\<close> is the duty of step \<open>j\<close>, the later of the tied steps in iteration order.
  The order of the steps is the data model's invariant, which resolution relies on.
\<close>

theorem update_status_tie:
  assumes "should_update_fan_speed w"
    and "get_or_none (CurrentSpeedProfile_table w) (ChannelType_value FAN) = Some last_applied"
    and "sorted (map temperature (steps (profile last_applied)))"
    and "i < j" and "j < length (steps (profile last_applied))"
    and "temperature (steps (profile last_applied) ! i) = temperature (steps (profile last_applied) ! j)"
    and "\<forall>k. j < k \<and> k < length (steps (profile last_applied)) \<longrightarrow>
           temperature (steps (profile last_applied) ! k) \<noteq> temperature (steps (profile last_applied) ! j)"
    and "float_ge_int (liquid_temperature status) (temperature (steps (profile last_applied) ! j))"
    and "\<forall>s\<in>set (steps (profile last_applied)).
           float_ge_int (liquid_temperature status) (temperature s) \<longrightarrow>
           temperature s \<le> temperature (steps (profile last_applied) ! j)"
  shows "update_status (Some status) w =
           w\<lparr>trace := trace w @
              [View (refresh_status (Some (status\<lparr>fan_speed := Some (duty (steps (profile last_applied) ! j))\<rparr>)))]\<rparr>"
proof -
  let ?ss = "steps (profile last_applied)"
  let ?P = "\<lambda>i. float_ge_int (liquid_temperature status) (temperature i)"
  have later: "\<forall>k. j < k \<and> k < length ?ss \<longrightarrow> \<not> ?P (?ss ! k)"
  proof (intro allI impI)
    fix k assume k: "j < k \<and> k < length ?ss"
    then have "map temperature ?ss ! j \<le> map temperature ?ss ! k"
      using assms(3) by (intro sorted_nth_mono) auto
    then have "temperature (?ss ! j) \<le> temperature (?ss ! k)"
      using k assms(5) by simp
    moreover have "temperature (?ss ! k) \<noteq> temperature (?ss ! j)"
      using assms(7) k by blast
    ultimately have "temperature (?ss ! j) < temperature (?ss ! k)" by simp
    moreover have "?ss ! k \<in> set ?ss" using k by simp
    ultimately show "\<not> ?P (?ss ! k)" using assms(9) by fastforce
  qed
  have lst: "last (filter ?P ?ss) = ?ss ! j"
    using assms(5,8) later by (rule last_filter_nth)
  have "?ss ! j \<in> set ?ss" using assms(5) by simp
  then have ne: "duties_of ?ss (liquid_temperature status) \<noteq> []"
    using assms(8) by (auto simp: duties_of_empty_iff)
  show ?thesis
    using assms(1,2) ne by (simp add: update_status_Some emit_def last_duties_of lst)
qed

theorem update_status_tie_witness:
  "update_status (Some (reading 45)) (tracking tied_profile) =
     (tracking tied_profile)\<lparr>trace := [View (refresh_status (Some ((reading 45)\<lparr>fan_speed := Some 70\<rparr>)))]\<rparr>"
proof -
  let ?row = "\<lparr>current_channel = ''fan'', profile = tied_profile\<rparr>"
  have flag: "should_update_fan_speed (tracking tied_profile)"
    by (simp add: tracking_def)
  have row: "get_or_none (CurrentSpeedProfile_table (tracking tied_profile)) (ChannelType_value FAN) = Some ?row"
    by (simp add: tracking_def init_def tied_profile_def)
  have srt: "sorted (map temperature (steps (profile ?row)))"
    by (simp add: tied_profile_def)
  have ij: "(1::nat) < 2" by simp
  have len: "2 < length (steps (profile ?row))" by (simp add: tied_profile_def)
  have tie: "temperature (steps (profile ?row) ! 1) = temperature (steps (profile ?row) ! 2)"
    by (simp add: tied_profile_def)
  have lastj: "\<forall>k. 2 < k \<and> k < length (steps (profile ?row)) \<longrightarrow>
      temperature (steps (profile ?row) ! k) \<noteq> temperature (steps (profile ?row) ! 2)"
  proof (intro allI impI)
    fix k :: nat assume "2 < k \<and> k < length (steps (profile ?row))"
    then have "k = 3" by (simp add: tied_profile_def)
    then show "temperature (steps (profile ?row) ! k) \<noteq> temperature (steps (profile ?row) ! 2)"
      by (simp add: tied_profile_def)
  qed
  have ge: "float_ge_int (liquid_temperature (reading 45)) (temperature (steps (profile ?row) ! 2))"
    by (simp add: tied_profile_def reading_def)
  have gr: "\<forall>s\<in>set (steps (profile ?row)).
      float_ge_int (liquid_temperature (reading 45)) (temperature s) \<longrightarrow>
      temperature s \<le> temperature (steps (profile ?row) ! 2)"
    by (simp add: tied_profile_def reading_def)
  show ?thesis
    using update_status_tie [OF flag row srt ij len tie lastj ge gr]
    by (simp add: tracking_trace tied_profile_def)
qed

text \<open>
  C5, as the code has it. For a fixed-speed profile (\<open>single_step\<close>, one step of duty 75
  at temperature \<open>t\<close>) the published \<open>fan_speed\<close> is 75 exactly when the measured
  temperature is at least \<open>t\<close>; below \<open>t\<close> (and for a NaN reading) the status is published
  as the device reported it. \<open>update_status\<close> never reads \<open>single_step\<close>.
\<close>

theorem update_status_single_step:
  assumes "should_update_fan_speed w"
    and "get_or_none (CurrentSpeedProfile_table w) (ChannelType_value FAN) = Some last_applied"
    and "single_step (profile last_applied)"
    and "steps (profile last_applied) = [\<lparr>temperature = t, duty = 75\<rparr>]"
  shows "update_status (Some status) w =
           w\<lparr>trace := trace w @
              [View (refresh_status (Some
                 (if float_ge_int (liquid_temperature status) t
                  then status\<lparr>fan_speed := Some 75\<rparr> else status)))]\<rparr>"
  using assms by (simp add: update_status_Some emit_def duties_of_def)

theorem update_status_single_step_witness:
  "update_status (Some (reading 45)) (tracking fixed_profile) =
     (tracking fixed_profile)\<lparr>trace := [View (refresh_status (Some ((reading 45)\<lparr>fan_speed := Some 75\<rparr>)))]\<rparr> \<and>
   update_status (Some (reading 10)) (tracking fixed_profile) =
     (tracking fixed_profile)\<lparr>trace := [View (refresh_status (Some (reading 10)))]\<rparr>"
proof -
  let ?row = "\<lparr>current_channel = ''fan'', profile = fixed_profile\<rparr>"
  have flag: "should_update_fan_speed (tracking fixed_profile)"
    by (simp add: tracking_def)
  have row: "get_or_none (CurrentSpeedProfile_table (tracking fixed_profile)) (ChannelType_value FAN) = Some ?row"
    by (simp add: tracking_def init_def fixed_profile_def)
  have single: "single_step (profile ?row)" by (simp add: fixed_profile_def)
  have one: "steps (profile ?row) = [\<lparr>temperature = 20, duty = 75\<rparr>]" by (simp add: fixed_profile_def)
  show ?thesis
    using update_status_single_step [OF flag row single one, of "reading 45"]
      update_status_single_step [OF flag row single one, of "reading 10"]
    by (simp add: tracking_trace reading_def)
qed

text \<open>
  C5 as stated fails: the fixed-speed profile with its step at 20 degrees and duty 75,
  at a measured temperature of 10 degrees, publishes the reported speed 1200 and not 75.
\<close>

theorem update_status_single_step_counterexample:
  "single_step fixed_profile \<and> map duty (steps fixed_profile) = [75] \<and>
   trace (update_status (Some (reading 10)) (tracking fixed_profile)) =
     [View (refresh_status (Some \<lparr>liquid_temperature = Finite 10, fan_speed = Some 1200, pump_speed = Some 2400\<rparr>))]"
  by (simp add: update_status_Some emit_def duties_of_def example_defs)

subsection \<open>The table of current profiles\<close>

lemma get_or_none_filter:
  "get_or_none rows c = (case filter (\<lambda>r. current_channel r = c) rows of [] \<Rightarrow> None | r # rs \<Rightarrow> Some r)"
  by (induction rows) auto

lemma save_filter_same:
  "filter (\<lambda>r. current_channel r = c) (save c p rows) =
     (case filter (\<lambda>r. current_channel r = c) rows of
        [] \<Rightarrow> []
      | r # rs \<Rightarrow> \<lparr>current_channel = c, profile = p\<rparr> # rs)"
  by (induction rows) auto

lemma save_filter_other:
  "filter (\<lambda>r. current_channel r \<noteq> c) (save c p rows) = filter (\<lambda>r. current_channel r \<noteq> c) rows"
  by (induction rows) auto

lemma save_length: "length (save c p rows) = length rows"
  by (induction rows) auto

lemma save_twice: "save c p (save c p rows) = save c p rows"
  by (induction rows) auto

lemma save_after_create:
  "filter (\<lambda>r. current_channel r = c) rows = [] \<Longrightarrow> save c p (create c p rows) = create c p rows"
  by (induction rows) (auto simp: create_def split: if_splits)

lemma update_current_speed_profile_table:
  "CurrentSpeedProfile_table (update_current_speed_profile p w) =
     (case get_or_none (CurrentSpeedProfile_table w) (channel p) of
        None \<Rightarrow> create (channel p) p (CurrentSpeedProfile_table w)
      | Some current \<Rightarrow> save (channel p) p (CurrentSpeedProfile_table w))"
  by (simp add: update_current_speed_profile_def emit_def Let_def)

lemma update_current_speed_profile_rows:
  assumes "length (filter (\<lambda>r. current_channel r = channel p) (CurrentSpeedProfile_table w)) \<le> 1"
  shows "filter (\<lambda>r. current_channel r = channel p)
           (CurrentSpeedProfile_table (update_current_speed_profile p (update_current_speed_profile p w)))
           = [\<lparr>current_channel = channel p, profile = p\<rparr>] \<and>
         filter (\<lambda>r. current_channel r \<noteq> channel p)
           (CurrentSpeedProfile_table (update_current_speed_profile p (update_current_speed_profile p w)))
           = filter (\<lambda>r. current_channel r \<noteq> channel p) (CurrentSpeedProfile_table w) \<and>
         CurrentSpeedProfile_table (update_current_speed_profile p (update_current_speed_profile p w))
           = CurrentSpeedProfile_table (update_current_speed_profile p w) \<and>
         CurrentSpeedProfile_table (update_current_speed_profile p w)
           = (if get_or_none (CurrentSpeedProfile_table w) (channel p) = None
              then CurrentSpeedProfile_table w @ [\<lparr>current_channel = channel p, profile = p\<rparr>]
              else save (channel p) p (CurrentSpeedProfile_table w)) \<and>
         length (save (channel p) p (CurrentSpeedProfile_table w)) = length (CurrentSpeedProfile_table w)"
proof -
  let ?c = "channel p"
  let ?rows = "CurrentSpeedProfile_table w"
  let ?same = "filter (\<lambda>r. current_channel r = ?c)"
  let ?other = "filter (\<lambda>r. current_channel r \<noteq> ?c)"
  let ?once = "CurrentSpeedProfile_table (update_current_speed_profile p w)"
  let ?twice = "CurrentSpeedProfile_table (update_current_speed_profile p (update_current_speed_profile p w))"
  let ?row = "\<lparr>current_channel = ?c, profile = p\<rparr>"
  have once: "?once = (if get_or_none ?rows ?c = None then ?rows @ [?row] else save ?c p ?rows)"
    by (simp add: update_current_speed_profile_table create_def split: option.split)
  have same_once: "?same ?once = [?row]"
  proof (cases "?same ?rows")
    case Nil
    then show ?thesis by (simp add: once get_or_none_filter)
  next
    case (Cons r rs)
    with assms have "rs = []" by simp
    with Cons show ?thesis by (simp add: once get_or_none_filter save_filter_same)
  qed
  then have found: "get_or_none ?once ?c = Some ?row"
    by (simp add: get_or_none_filter)
  have twice: "?twice = save ?c p ?once"
    by (simp add: update_current_speed_profile_table [of p "update_current_speed_profile p w"] found)
  have stable: "save ?c p ?once = ?once"
  proof (cases "?same ?rows")
    case Nil
    then show ?thesis using save_after_create [of ?c ?rows p]
      by (simp add: once get_or_none_filter create_def)
  next
    case (Cons r rs)
    then show ?thesis by (simp add: once get_or_none_filter save_twice)
  qed
  have other_once: "?other ?once = ?other ?rows"
    by (simp add: once save_filter_other)
  show ?thesis
    using same_once other_once once twice stable by (simp add: save_length)
qed

lemma set_speed_profile_result_Inr:
  "set_speed_profile_result p (Inr u) w = update_current_speed_profile p w"
  by (simp add: set_speed_profile_result_def defer_just_def set_speed_profile_on_next_def)

lemma set_speed_profile_table:
  "CurrentSpeedProfile_table (set_speed_profile p w) = CurrentSpeedProfile_table w"
  by (simp add: set_speed_profile_def emit_def)

lemma update_current_speed_profile_table_cong:
  "CurrentSpeedProfile_table v = CurrentSpeedProfile_table w \<Longrightarrow>
     CurrentSpeedProfile_table (update_current_speed_profile p v) =
     CurrentSpeedProfile_table (update_current_speed_profile p w)"
  by (simp add: update_current_speed_profile_table split: option.split)

text \<open>
  C2. Applying a profile is the call of \<open>set_speed_profile\<close> followed by the success of the
  device call, which runs \<open>update_current_speed_profile\<close>. When the table holds at most one
  row for the profile's channel, applying the profile twice leaves exactly one row for that
  channel, holding that profile; the rows of the other channels are as before; the second
  application changes nothing in the table; and the first one appends a row when the
  channel had none and otherwise writes the existing row in place, the number of rows
  unchanged.
\<close>

theorem set_speed_profile_result_upsert:
  assumes "length (filter (\<lambda>r. current_channel r = channel p) (CurrentSpeedProfile_table w)) \<le> 1"
  shows "filter (\<lambda>r. current_channel r = channel p)
           (CurrentSpeedProfile_table
             (set_speed_profile_result p (Inr ())
               (set_speed_profile p (set_speed_profile_result p (Inr ()) (set_speed_profile p w)))))
           = [\<lparr>current_channel = channel p, profile = p\<rparr>] \<and>
         filter (\<lambda>r. current_channel r \<noteq> channel p)
           (CurrentSpeedProfile_table
             (set_speed_profile_result p (Inr ())
               (set_speed_profile p (set_speed_profile_result p (Inr ()) (set_speed_profile p w)))))
           = filter (\<lambda>r. current_channel r \<noteq> channel p) (CurrentSpeedProfile_table w) \<and>
         CurrentSpeedProfile_table
             (set_speed_profile_result p (Inr ())
               (set_speed_profile p (set_speed_profile_result p (Inr ()) (set_speed_profile p w))))
           = CurrentSpeedProfile_table (set_speed_profile_result p (Inr ()) (set_speed_profile p w)) \<and>
         CurrentSpeedProfile_table (set_speed_profile_result p (Inr ()) (set_speed_profile p w))
           = (if get_or_none (CurrentSpeedProfile_table w) (channel p) = None
              then CurrentSpeedProfile_table w @ [\<lparr>current_channel = channel p, profile = p\<rparr>]
              else save (channel p) p (CurrentSpeedProfile_table w)) \<and>
         length (save (channel p) p (CurrentSpeedProfile_table w)) = length (CurrentSpeedProfile_table w)"
proof -
  let ?once = "set_speed_profile_result p (Inr ()) (set_speed_profile p w)"
  let ?twice = "set_speed_profile_result p (Inr ()) (set_speed_profile p ?once)"
  have once: "CurrentSpeedProfile_table ?once = CurrentSpeedProfile_table (update_current_speed_profile p w)"
    unfolding set_speed_profile_result_Inr
    by (rule update_current_speed_profile_table_cong) (rule set_speed_profile_table)
  have "CurrentSpeedProfile_table (set_speed_profile p ?once) =
      CurrentSpeedProfile_table (update_current_speed_profile p w)"
    by (simp only: set_speed_profile_table once)
  then have twice: "CurrentSpeedProfile_table ?twice =
      CurrentSpeedProfile_table (update_current_speed_profile p (update_current_speed_profile p w))"
    unfolding set_speed_profile_result_Inr [of p "()" "set_speed_profile p ?once"]
    by (rule update_current_speed_profile_table_cong)
  show ?thesis
    unfolding once twice using assms by (rule update_current_speed_profile_rows)
qed

theorem set_speed_profile_result_upsert_witness:
  "CurrentSpeedProfile_table
     (set_speed_profile_result curve_profile (Inr ())
       (set_speed_profile curve_profile
         (set_speed_profile_result curve_profile (Inr ())
           (set_speed_profile curve_profile (init [] [curve_profile] (\<lambda>key. True) (\<lambda>key. 3) :: unit Presenter)))))
     = [\<lparr>current_channel = ''fan'', profile = curve_profile\<rparr>] \<and>
   CurrentSpeedProfile_table
     (set_speed_profile_result curve_profile (Inr ())
       (set_speed_profile curve_profile
         (set_speed_profile_result curve_profile (Inr ())
           (set_speed_profile curve_profile (tracking fixed_profile)))))
     = [\<lparr>current_channel = ''fan'', profile = curve_profile\<rparr>]"
proof -
  let ?w0 = "init [] [curve_profile] (\<lambda>key. True) (\<lambda>key. 3) :: unit Presenter"
  have h0: "length (filter (\<lambda>r. current_channel r = channel curve_profile) (CurrentSpeedProfile_table ?w0)) \<le> 1"
    by (simp add: init_def)
  have h1: "length (filter (\<lambda>r. current_channel r = channel curve_profile)
      (CurrentSpeedProfile_table (tracking fixed_profile))) \<le> 1"
    by (simp add: tracking_def init_def)
  have c: "channel curve_profile = ''fan''" by (simp add: curve_profile_def)
  have t0: "CurrentSpeedProfile_table ?w0 = []" by (simp add: init_def)
  have t1: "CurrentSpeedProfile_table (tracking fixed_profile) = [\<lparr>current_channel = ''fan'', profile = fixed_profile\<rparr>]"
    by (simp add: tracking_def init_def fixed_profile_def)
  show ?thesis
    using set_speed_profile_result_upsert [OF h0] set_speed_profile_result_upsert [OF h1]
    by (simp add: c t0 t1)
qed

lemma set_speed_profile_result_Inl:
  "set_speed_profile_result p (Inl ex) w = set_speed_profile_on_error p ex w"
  by (simp add: set_speed_profile_result_def defer_just_def)

text \<open>
  C3, as the code has it. When the device call of \<^verbatim>\<open>_set_speed_profile\<close> fails, the
  presenter logs the error and sets the status bar to
  \<^verbatim>\<open>Error applying <channel> speed profile!\<close>, the channel being the profile's; nothing
  else changes. In particular the table of current profiles is the same, for every channel,
  and the poller's subscription is as live as it was. The message names the channel, not
  the profile.
\<close>

theorem set_speed_profile_failure:
  "set_speed_profile_result p (Inl ex) w =
     w\<lparr>trace := trace w @
        [Log (''Set cooling error: '' @ str ex),
         View (set_statusbar_text (''Error applying '' @ channel p @ '' speed profile!''))]\<rparr> \<and>
   CurrentSpeedProfile_table (set_speed_profile_result p (Inl ex) w) = CurrentSpeedProfile_table w \<and>
   refresh_alive (set_speed_profile_result p (Inl ex) w) = refresh_alive w"
  by (simp add: set_speed_profile_result_Inl set_speed_profile_on_error_def emit_def)

text \<open>
  C3 as stated fails: the message does not name the profile. The profiles named Curve and
  Fixed, both of the fan, give the same text when their application fails.
\<close>

theorem set_speed_profile_failure_counterexample:
  "name curve_profile = ''Curve'' \<and> name fixed_profile = ''Fixed'' \<and>
   trace (set_speed_profile_result curve_profile (Inl (Exception ''usb'')) (tracking curve_profile)) =
     [Log ''Set cooling error: usb'', View (set_statusbar_text ''Error applying fan speed profile!'')] \<and>
   trace (set_speed_profile_result fixed_profile (Inl (Exception ''usb'')) (tracking curve_profile)) =
     [Log ''Set cooling error: usb'', View (set_statusbar_text ''Error applying fan speed profile!'')]"
  by (simp add: set_speed_profile_result_Inl set_speed_profile_on_error_def emit_def tracking_trace
      curve_profile_def fixed_profile_def)

subsection \<open>The status poller\<close>

lemma get_status_Inl:
  "get_status (Inl ex) w =
     ([OnNext None, OnCompleted],
      w\<lparr>trace := trace w @ [Log (''Err = '' @ str ex), View (set_statusbar_text (str ex))]\<rparr>)"
  by (simp add: get_status_def defer_just_def log_exception_return_empty_observable_def emit_def)

lemma get_status_Inr: "get_status (Inr s) w = ([OnNext s, OnCompleted], w)"
  by (simp add: get_status_def defer_just_def)

lemma update_status_alive: "refresh_alive (update_status s w) = refresh_alive w"
  by (cases s) (simp_all add: update_status_def emit_def Let_def)

lemma refresh_tick_alive: "refresh_alive w \<Longrightarrow> refresh_alive (refresh_tick fetched w)"
  by (cases fetched) (simp_all add: refresh_tick_def get_status_Inl get_status_Inr update_status_alive)

lemma refresh_ticks_alive: "refresh_alive w \<Longrightarrow> refresh_alive (refresh_ticks fs w)"
  by (induction fs arbitrary: w) (simp_all add: refresh_tick_alive)

text \<open>
  C4. On a live poller, a tick whose fetch raises is caught: the exception is logged, its
  text is put on the status bar, and nothing else changes, so the subscription stays live.
  The tick after it is delivered to \<open>update_status\<close> as any other, and after any sequence of
  ticks, failed or not, the subscription is still live. Ticks are counted, not timed: the
  interval is the one \<open>start_refresh\<close> subscribes with.
\<close>

theorem refresh_tick_fetch_failure:
  assumes "refresh_alive w"
  shows "refresh_tick (Inl ex) w =
           w\<lparr>trace := trace w @ [Log (''Err = '' @ str ex), View (set_statusbar_text (str ex))]\<rparr> \<and>
         refresh_alive (refresh_tick (Inl ex) w) \<and>
         refresh_tick (Inr s) (refresh_tick (Inl ex) w) = update_status s (refresh_tick (Inl ex) w) \<and>
         refresh_alive (refresh_ticks fs w)"
  using assms
  by (simp add: refresh_tick_def get_status_Inl get_status_Inr update_status_def refresh_ticks_alive)

theorem refresh_tick_fetch_failure_witness:
  "refresh_alive (start_refresh (init [] [] (\<lambda>key. False) (\<lambda>key. 3)) :: unit Presenter) \<and>
   trace (refresh_tick (Inl (Exception ''usb'')) (start_refresh (init [] [] (\<lambda>key. False) (\<lambda>key. 3)) :: unit Presenter)) =
     [Subscribed (Refresh 3000), Log ''Err = usb'', View (set_statusbar_text ''usb'')] \<and>
   refresh_alive (refresh_ticks [Inl (Exception ''usb''), Inr (Some (reading 45)), Inl (Exception ''usb'')]
      (start_refresh (init [] [] (\<lambda>key. False) (\<lambda>key. 3)) :: unit Presenter))"
proof -
  let ?w = "start_refresh (init [] [] (\<lambda>key. False) (\<lambda>key. 3)) :: unit Presenter"
  have alive: "refresh_alive ?w" by (simp add: start_refresh_def emit_def)
  have tr: "trace ?w = [Subscribed (Refresh 3000)]" by (simp add: start_refresh_def emit_def init_def)
  note inst = refresh_tick_fetch_failure [OF alive, of "Exception ''usb''" "Some (reading 45)"
      "[Inl (Exception ''usb''), Inr (Some (reading 45)), Inl (Exception ''usb'')]"]
  from inst have failed: "refresh_tick (Inl (Exception ''usb'')) ?w =
      ?w\<lparr>trace := trace ?w @ [Log (''Err = '' @ str (Exception ''usb'')), View (set_statusbar_text (str (Exception ''usb'')))]\<rparr>"
    by blast
  from inst have still: "refresh_alive (refresh_ticks [Inl (Exception ''usb''), Inr (Some (reading 45)), Inl (Exception ''usb'')] ?w)"
    by blast
  have "trace (refresh_tick (Inl (Exception ''usb'')) ?w) =
      [Subscribed (Refresh 3000), Log ''Err = usb'', View (set_statusbar_text ''usb'')]"
    by (simp add: failed tr)
  with alive still show ?thesis by blast
qed

subsection \<open>Start-up\<close>

lemma next_index_Some: "x \<in> fst ` set data \<Longrightarrow> \<exists>i. next_index data x n = Some i"
  by (induction data arbitrary: n) auto

lemma get_profile_list_has:
  assumes "\<exists>q\<in>set (SpeedProfile_table w). channel q = ChannelType_value ch \<and> profile_id q = x"
  shows "\<exists>i. next_index (get_profile_list ch w) x 0 = Some i"
proof -
  from assms have "x \<in> fst ` set (get_profile_list ch w)"
    by (force simp: get_profile_list_def)
  then show ?thesis by (rule next_index_Some)
qed

lemma update_status_trace: "\<exists>rest. trace (update_status s w) = trace w @ rest"
  by (cases s) (simp_all add: update_status_def emit_def Let_def)

lemma refresh_tick_trace: "\<exists>rest. trace (refresh_tick fetched w) = trace w @ rest"
proof (cases fetched)
  case (Inl ex)
  then show ?thesis
    by (simp add: refresh_tick_def get_status_def defer_just_def log_exception_return_empty_observable_def
        emit_def update_status_def)
next
  case (Inr s)
  then show ?thesis
    using update_status_trace [of s w]
    by (simp add: refresh_tick_def get_status_def defer_just_def)
qed

lemma refresh_ticks_trace: "\<exists>rest. trace (refresh_ticks fs w) = trace w @ rest"
proof (induction fs arbitrary: w)
  case Nil
  then show ?case by simp
next
  case (Cons f fs)
  obtain r1 where r1: "trace (refresh_tick f w) = trace w @ r1"
    using refresh_tick_trace by blast
  obtain r2 where r2: "trace (refresh_ticks fs (refresh_tick f w)) = trace (refresh_tick f w) @ r2"
    using Cons.IH by blast
  show ?case by (simp add: r1 r2)
qed

lemma init_speed_profiles_body_trace:
  "\<exists>evs. trace (snd (init_speed_profiles_body ch w)) = trace w @ evs \<and> (\<forall>s. View (refresh_status s) \<notin> set evs)"
  by (simp add: init_speed_profiles_body_def Let_def emit_def set_speed_profile_def split: option.split)

lemma init_speed_profiles_body_FAN:
  assumes "settings_get_bool w ''settings_load_last_profile''"
    and "get_or_none (CurrentSpeedProfile_table w) (ChannelType_value FAN) = Some current"
    and "\<exists>q\<in>set (SpeedProfile_table w). channel q = ChannelType_value FAN \<and> profile_id q = profile_id (profile current)"
  shows "\<exists>w' ev. init_speed_profiles_body FAN w = (None, w') \<and>
           trace w' = trace w @ [Subscribed (Set_speed_profile (channel (profile current)) (get_profile_data (profile current))), ev]
           \<and> (\<forall>s. ev \<noteq> View (refresh_status s))"
proof -
  obtain i where "next_index (get_profile_list FAN w) (profile_id (profile current)) 0 = Some i"
    using get_profile_list_has [OF assms(3)] by blast
  then show ?thesis
    using assms(1,2)
    by (simp add: init_speed_profiles_body_def Let_def emit_def set_speed_profile_def)
qed

lemma after_init_trace:
  "\<exists>evs. trace (check_new_version (start_refresh (init_settings D w))) = trace w @ evs \<and>
      (\<forall>s. View (refresh_status s) \<notin> set evs)"
  by (simp add: check_new_version_def start_refresh_def init_settings_def emit_def Let_def)

lemma on_start_trace:
  assumes "settings_get_bool w ''settings_load_last_profile''"
    and "get_or_none (CurrentSpeedProfile_table w) (ChannelType_value FAN) = Some current"
    and "\<exists>q\<in>set (SpeedProfile_table w). channel q = ChannelType_value FAN \<and> profile_id q = profile_id (profile current)"
  shows "\<exists>evs. trace (snd (on_start D w)) =
            trace w @ Subscribed (Set_speed_profile (channel (profile current)) (get_profile_data (profile current))) # evs
          \<and> (\<forall>s. View (refresh_status s) \<notin> set evs)"
proof -
  obtain w1 ev where fan: "init_speed_profiles_body FAN w = (None, w1)"
    and t1: "trace w1 = trace w @ [Subscribed (Set_speed_profile (channel (profile current)) (get_profile_data (profile current))), ev]"
    and ev: "\<forall>s. ev \<noteq> View (refresh_status s)"
    using init_speed_profiles_body_FAN [OF assms] by blast
  obtain e2 w2 where pump: "init_speed_profiles_body PUMP w1 = (e2, w2)"
    by (cases "init_speed_profiles_body PUMP w1")
  obtain evs2 where t2: "trace w2 = trace w1 @ evs2" and n2: "\<forall>s. View (refresh_status s) \<notin> set evs2"
    using init_speed_profiles_body_trace [of PUMP w1] pump by auto
  show ?thesis
  proof (cases e2)
    case None
    obtain evs3 where t3: "trace (check_new_version (start_refresh (init_settings D w2))) = trace w2 @ evs3"
      and n3: "\<forall>s. View (refresh_status s) \<notin> set evs3"
      using after_init_trace by blast
    have "snd (on_start D w) = check_new_version (start_refresh (init_settings D w2))"
      using None fan pump by (simp add: on_start_def init_speed_profiles_def ChannelType_members_def)
    then have "trace (snd (on_start D w)) =
        trace w @ Subscribed (Set_speed_profile (channel (profile current)) (get_profile_data (profile current))) # (ev # evs2 @ evs3)"
      by (simp add: t1 t2 t3)
    moreover have "\<forall>s. View (refresh_status s) \<notin> set (ev # evs2 @ evs3)"
      using ev n2 n3 by auto
    ultimately show ?thesis by blast
  next
    case (Some e)
    have "snd (on_start D w) = w2"
      using Some fan pump by (simp add: on_start_def init_speed_profiles_def ChannelType_members_def)
    then have "trace (snd (on_start D w)) =
        trace w @ Subscribed (Set_speed_profile (channel (profile current)) (get_profile_data (profile current))) # (ev # evs2)"
      by (simp add: t1 t2)
    moreover have "\<forall>s. View (refresh_status s) \<notin> set (ev # evs2)"
      using ev n2 by auto
    ultimately show ?thesis by blast
  qed
qed

text \<open>
  C8. A fresh presenter is started with the load-last-profile setting on and a row for
  the fan in the table of current profiles, whose profile is one of the fan's stored
  profiles. Then the first thing \<open>on_start\<close> does to the outside is to subscribe the device
  call for that profile; \<open>on_start\<close> itself publishes no status; and whatever ticks follow,
  their events come after those of \<open>on_start\<close>. So every status published comes after the
  application of the persisted profile was started.
\<close>

theorem on_start_applies_before_first_status:
  assumes "gb ''settings_load_last_profile''"
    and "get_or_none cur (ChannelType_value FAN) = Some current"
    and "\<exists>q\<in>set profs. channel q = ChannelType_value FAN \<and> profile_id q = profile_id (profile current)"
  shows "\<exists>evs. trace (snd (on_start D (init cur profs gb gi :: 'm Presenter))) =
            Subscribed (Set_speed_profile (channel (profile current)) (get_profile_data (profile current))) # evs \<and>
          (\<forall>s. View (refresh_status s) \<notin> set evs) \<and>
          (\<forall>fs. \<exists>rest. trace (refresh_ticks fs (snd (on_start D (init cur profs gb gi)))) =
            Subscribed (Set_speed_profile (channel (profile current)) (get_profile_data (profile current))) # evs @ rest)"
proof -
  let ?w = "init cur profs gb gi :: 'm Presenter"
  have a: "settings_get_bool ?w ''settings_load_last_profile''" using assms(1) by (simp add: init_def)
  have b: "get_or_none (CurrentSpeedProfile_table ?w) (ChannelType_value FAN) = Some current"
    using assms(2) by (simp add: init_def)
  have c: "\<exists>q\<in>set (SpeedProfile_table ?w). channel q = ChannelType_value FAN \<and> profile_id q = profile_id (profile current)"
    using assms(3) by (simp add: init_def)
  have e: "trace ?w = []" by (simp add: init_def)
  obtain evs where t: "trace (snd (on_start D ?w)) =
      Subscribed (Set_speed_profile (channel (profile current)) (get_profile_data (profile current))) # evs"
    and n: "\<forall>s. View (refresh_status s) \<notin> set evs"
    using on_start_trace [OF a b c, of D] by (auto simp: e)
  have "\<forall>fs. \<exists>rest. trace (refresh_ticks fs (snd (on_start D ?w))) =
      Subscribed (Set_speed_profile (channel (profile current)) (get_profile_data (profile current))) # evs @ rest"
  proof
    fix fs
    obtain rest where "trace (refresh_ticks fs (snd (on_start D ?w))) = trace (snd (on_start D ?w)) @ rest"
      using refresh_ticks_trace by blast
    then show "\<exists>rest. trace (refresh_ticks fs (snd (on_start D ?w))) =
      Subscribed (Set_speed_profile (channel (profile current)) (get_profile_data (profile current))) # evs @ rest"
      by (simp add: t)
  qed
  with t n show ?thesis by blast
qed

theorem on_start_applies_before_first_status_witness:
  "trace (snd (on_start [(''settings_load_last_profile'', DefaultBool False)]
      (init [\<lparr>current_channel = ''fan'', profile = curve_profile\<rparr>] [curve_profile] (\<lambda>key. True) (\<lambda>key. 3)
         :: unit Presenter))) =
     [Subscribed (Set_speed_profile ''fan'' [(20, 30), (40, 60), (60, 100)]),
      View (refresh_profile_combobox FAN [(1, ''Curve''), add_new_profile_item] (Some 0)),
      View (refresh_profile_combobox PUMP [add_new_profile_item] None),
      View (refresh_settings [(''settings_load_last_profile'', BoolSetting True)]),
      Subscribed (Refresh 3000),
      Subscribed Check_new_version]"
proof -
  let ?cur = "[\<lparr>current_channel = ''fan'', profile = curve_profile\<rparr>]"
  let ?gb = "\<lambda>key :: string. True"
  have h1: "?gb ''settings_load_last_profile''" by simp
  have h2: "get_or_none ?cur (ChannelType_value FAN) = Some \<lparr>current_channel = ''fan'', profile = curve_profile\<rparr>"
    by simp
  have h3: "\<exists>q\<in>set [curve_profile]. channel q = ChannelType_value FAN \<and>
      profile_id q = profile_id (profile \<lparr>current_channel = ''fan'', profile = curve_profile\<rparr>)"
    by (simp add: curve_profile_def)
  show ?thesis
    using on_start_applies_before_first_status [of ?gb, OF h1 h2 h3,
        of "[(''settings_load_last_profile'', DefaultBool False)]" "\<lambda>key. 3"]
    by (simp add: on_start_def init_speed_profiles_def ChannelType_members_def init_speed_profiles_body_def
        get_profile_list_def set_speed_profile_def get_profile_data_def init_settings_def start_refresh_def
        check_new_version_def emit_def init_def curve_profile_def List.map_filter_def)
qed

subsection \<open>Chart data\<close>

lemma dict_get_set: "dict_get (dict_set k v d) k' = (if k' = k then Some v else dict_get d k')"
  by (induction d) auto

lemma dict_set_keys: "fst ` set (dict_set k v d) = insert k (fst ` set d)"
  by (induction d) auto

lemma dict_set_not_Nil: "dict_set k v d \<noteq> []"
  by (cases d) auto

lemma data_snoc:
  "foldl (\<lambda>d s. dict_set (temperature s) (duty s) d) [] (ss @ [s]) =
     dict_set (temperature s) (duty s) (foldl (\<lambda>d s. dict_set (temperature s) (duty s) d) [] ss)"
  by simp

lemma data_get:
  "dict_get (foldl (\<lambda>d s. dict_set (temperature s) (duty s) d) [] ss) k =
     (if \<exists>s\<in>set ss. temperature s = k
      then Some (duty (last (filter (\<lambda>s. temperature s = k) ss))) else None)"
proof (induction ss rule: rev_induct)
  case Nil
  then show ?case by simp
next
  case (snoc s ss)
  show ?case
    unfolding data_snoc dict_get_set using snoc.IH by auto
qed

lemma data_keys:
  "fst ` set (foldl (\<lambda>d s. dict_set (temperature s) (duty s) d) [] ss) = temperature ` set ss"
proof (induction ss rule: rev_induct)
  case Nil
  then show ?case by simp
next
  case (snoc s ss)
  show ?case
    unfolding data_snoc dict_set_keys using snoc.IH by auto
qed

lemma data_Nil_iff:
  "foldl (\<lambda>d s. dict_set (temperature s) (duty s) d) [] ss = [] \<longleftrightarrow> ss = []"
  by (cases ss rule: rev_cases) (simp_all add: dict_set_not_Nil)

lemma min_key_Min: "min_key m d = Min (insert m (fst ` set d))"
proof (induction d arbitrary: m)
  case Nil
  then show ?case by simp
next
  case (Cons kv d)
  have "Min (insert (min m (fst kv)) (fst ` set d)) = Min (insert m (insert (fst kv) (fst ` set d)))"
    by (cases "fst ` set d = {}") (simp_all add: min.assoc)
  then show ?case using Cons.IH [of "min m (fst kv)"] by simp
qed

lemma min_key_data:
  assumes "foldl (\<lambda>d s. dict_set (temperature s) (duty s) d) [] ss = kv # rest"
  shows "min_key (fst kv) rest = Min (temperature ` set ss)"
proof -
  have "fst ` set (kv # rest) = temperature ` set ss"
    using data_keys [of ss] by (simp only: assms)
  then show ?thesis by (simp add: min_key_Min)
qed

lemma get_speed_profile_data_Cons:
  assumes "foldl (\<lambda>d s. dict_set (temperature s) (duty s) d) [] (steps p) = data" and "data = kv # rest"
  shows "get_speed_profile_data MIN_TEMP MAX_TEMP MAX_DUTY p =
     (if single_step p then
        (case steps p of
           [] \<Rightarrow> Inl IndexError
         | s0 # ss \<Rightarrow> Inr (dict_set MAX_TEMP (duty s0) data))
      else if dict_get data MIN_TEMP = None then
        (case dict_get data (min_key (fst kv) rest) of
           None \<Rightarrow> Inl KeyError
         | Some v \<Rightarrow> Inr (dict_set MAX_TEMP MAX_DUTY (dict_set MIN_TEMP v data)))
      else Inr (dict_set MAX_TEMP MAX_DUTY data))"
  unfolding get_speed_profile_data_def Let_def assms(1) by (simp add: assms(2))

text \<open>
  C9. \<open>get_speed_profile_data\<close> raises nothing. For a profile without steps it returns
  the empty dict. Otherwise, for a \<open>single_step\<close> profile the result maps \<open>MAX_TEMP\<close> to the
  first step's duty; for any other profile it maps \<open>MAX_TEMP\<close> to \<open>MAX_DUTY\<close> and, when no
  step is at \<open>MIN_TEMP\<close>, maps \<open>MIN_TEMP\<close> to the duty of the step of lowest temperature
  (the last such step, if several share it). The two constants are taken to differ, as
  the bounds of the chart's axis do.
\<close>

theorem get_speed_profile_data_cases:
  "(steps p = [] \<longrightarrow> get_speed_profile_data MIN_TEMP MAX_TEMP MAX_DUTY p = Inr []) \<and>
   (steps p \<noteq> [] \<and> single_step p \<longrightarrow>
      (\<exists>d. get_speed_profile_data MIN_TEMP MAX_TEMP MAX_DUTY p = Inr d \<and>
           dict_get d MAX_TEMP = Some (duty (hd (steps p))))) \<and>
   (steps p \<noteq> [] \<and> \<not> single_step p \<longrightarrow>
      (\<exists>d. get_speed_profile_data MIN_TEMP MAX_TEMP MAX_DUTY p = Inr d \<and>
           dict_get d MAX_TEMP = Some MAX_DUTY \<and>
           ((\<forall>s\<in>set (steps p). temperature s \<noteq> MIN_TEMP) \<and> MIN_TEMP \<noteq> MAX_TEMP \<longrightarrow>
              dict_get d MIN_TEMP =
                Some (duty (last (filter (\<lambda>s. temperature s = Min (temperature ` set (steps p))) (steps p)))))))"
proof (intro conjI impI)
  assume "steps p = []"
  then show "get_speed_profile_data MIN_TEMP MAX_TEMP MAX_DUTY p = Inr []"
    by (simp add: get_speed_profile_data_def)
next
  let ?data = "foldl (\<lambda>d s. dict_set (temperature s) (duty s) d) [] (steps p)"
  assume a: "steps p \<noteq> [] \<and> single_step p"
  then obtain kv rest where data: "?data = kv # rest"
    using data_Nil_iff [of "steps p"] by (cases ?data) auto
  from a obtain s0 ss where st: "steps p = s0 # ss" by (cases "steps p") auto
  have "get_speed_profile_data MIN_TEMP MAX_TEMP MAX_DUTY p = Inr (dict_set MAX_TEMP (duty s0) ?data)"
    using a st by (simp add: get_speed_profile_data_Cons [OF refl data])
  then show "\<exists>d. get_speed_profile_data MIN_TEMP MAX_TEMP MAX_DUTY p = Inr d \<and>
      dict_get d MAX_TEMP = Some (duty (hd (steps p)))"
    by (simp add: dict_get_set st)
next
  let ?data = "foldl (\<lambda>d s. dict_set (temperature s) (duty s) d) [] (steps p)"
  let ?m = "Min (temperature ` set (steps p))"
  assume a: "steps p \<noteq> [] \<and> \<not> single_step p"
  then obtain kv rest where data: "?data = kv # rest"
    using data_Nil_iff [of "steps p"] by (cases ?data) auto
  have mk: "min_key (fst kv) rest = ?m" using data by (rule min_key_data)
  have "?m \<in> temperature ` set (steps p)" using a by (intro Min_in) auto
  then have ex: "\<exists>s\<in>set (steps p). temperature s = ?m" by auto
  then have low: "dict_get ?data ?m = Some (duty (last (filter (\<lambda>s. temperature s = ?m) (steps p))))"
    by (simp add: data_get)
  show "\<exists>d. get_speed_profile_data MIN_TEMP MAX_TEMP MAX_DUTY p = Inr d \<and>
      dict_get d MAX_TEMP = Some MAX_DUTY \<and>
      ((\<forall>s\<in>set (steps p). temperature s \<noteq> MIN_TEMP) \<and> MIN_TEMP \<noteq> MAX_TEMP \<longrightarrow>
        dict_get d MIN_TEMP = Some (duty (last (filter (\<lambda>s. temperature s = ?m) (steps p)))))"
  proof (cases "dict_get ?data MIN_TEMP = None")
    case True
    have "get_speed_profile_data MIN_TEMP MAX_TEMP MAX_DUTY p =
        Inr (dict_set MAX_TEMP MAX_DUTY
          (dict_set MIN_TEMP (duty (last (filter (\<lambda>s. temperature s = ?m) (steps p)))) ?data))"
      using a True low by (simp add: get_speed_profile_data_Cons [OF refl data] mk)
    then show ?thesis by (simp add: dict_get_set)
  next
    case False
    then have "\<exists>s\<in>set (steps p). temperature s = MIN_TEMP"
      by (simp add: data_get split: if_splits)
    moreover have "get_speed_profile_data MIN_TEMP MAX_TEMP MAX_DUTY p = Inr (dict_set MAX_TEMP MAX_DUTY ?data)"
      using a False by (auto simp: get_speed_profile_data_Cons [OF refl data])
    ultimately show ?thesis by (auto simp: dict_get_set)
  qed
qed

theorem get_speed_profile_data_cases_witness:
  "get_speed_profile_data 20 60 100 (curve_profile\<lparr>steps := []\<rparr>) = Inr [] \<and>
   get_speed_profile_data 20 60 100 fixed_profile = Inr [(20, 75), (60, 75)] \<and>
   get_speed_profile_data 20 60 100 curve_profile = Inr [(20, 30), (40, 60), (60, 100)] \<and>
   get_speed_profile_data 20 60 100 (curve_profile\<lparr>steps := [\<lparr>temperature = 40, duty = 60\<rparr>, \<lparr>temperature = 30, duty = 50\<rparr>]\<rparr>)
     = Inr [(40, 60), (30, 50), (20, 50), (60, 100)]"
  using get_speed_profile_data_cases [of "curve_profile\<lparr>steps := []\<rparr>" 20 60 100]
    get_speed_profile_data_cases [of fixed_profile 20 60 100]
    get_speed_profile_data_cases [of curve_profile 20 60 100]
  by (simp add: get_speed_profile_data_def curve_profile_def fixed_profile_def)

end
